theory Spec2Isabelle
  imports Complex_Main "HOL-Library.Product_Lexorder" "HOL-Library.Multiset"
begin

section \<open>JavaScript numbers\<close>

text \<open>
  The views compute with JavaScript numbers. A number is modelled as a finite value, one of
  the two infinities, or NaN. Finite values are rationals and arithmetic on them is exact:
  rounding, overflow to an infinity and the sign of zero are left out of the model (a zero
  denominator behaves as +0). What the model keeps is the part the views depend on: which
  operations leave the finite numbers, and what \<open>Math.min\<close> and \<open>>\<close> do with the
  values outside them.
\<close>

datatype number = Finite rat | Infinity | NegInfinity | NaN

fun isFinite :: "number \<Rightarrow> bool" where
  "isFinite (Finite x) = True"
| "isFinite Infinity = False"
| "isFinite NegInfinity = False"
| "isFinite NaN = False"

text \<open>\<open>a - b\<close>\<close>

fun num_sub :: "number \<Rightarrow> number \<Rightarrow> number" where
  "num_sub NaN b = NaN"
| "num_sub a NaN = NaN"
| "num_sub (Finite x) (Finite y) = Finite (x - y)"
| "num_sub (Finite x) Infinity = NegInfinity"
| "num_sub (Finite x) NegInfinity = Infinity"
| "num_sub Infinity Infinity = NaN"
| "num_sub Infinity b = Infinity"
| "num_sub NegInfinity NegInfinity = NaN"
| "num_sub NegInfinity b = NegInfinity"

text \<open>\<open>a / b\<close>: a zero denominator gives NaN for a zero numerator and an infinity otherwise.\<close>

fun num_div :: "number \<Rightarrow> number \<Rightarrow> number" where
  "num_div NaN b = NaN"
| "num_div a NaN = NaN"
| "num_div (Finite x) (Finite y) =
     (if y \<noteq> 0 then Finite (x / y)
      else if x = 0 then NaN
      else if 0 < x then Infinity else NegInfinity)"
| "num_div (Finite x) b = Finite 0"
| "num_div Infinity (Finite y) = (if 0 \<le> y then Infinity else NegInfinity)"
| "num_div NegInfinity (Finite y) = (if 0 \<le> y then NegInfinity else Infinity)"
| "num_div a b = NaN"

text \<open>\<open>a * b\<close>\<close>

fun num_mul :: "number \<Rightarrow> number \<Rightarrow> number" where
  "num_mul NaN b = NaN"
| "num_mul a NaN = NaN"
| "num_mul (Finite x) (Finite y) = Finite (x * y)"
| "num_mul (Finite x) Infinity =
     (if x = 0 then NaN else if 0 < x then Infinity else NegInfinity)"
| "num_mul (Finite x) NegInfinity =
     (if x = 0 then NaN else if 0 < x then NegInfinity else Infinity)"
| "num_mul Infinity (Finite y) =
     (if y = 0 then NaN else if 0 < y then Infinity else NegInfinity)"
| "num_mul NegInfinity (Finite y) =
     (if y = 0 then NaN else if 0 < y then NegInfinity else Infinity)"
| "num_mul Infinity Infinity = Infinity"
| "num_mul Infinity NegInfinity = NegInfinity"
| "num_mul NegInfinity Infinity = NegInfinity"
| "num_mul NegInfinity NegInfinity = Infinity"

text \<open>\<open>a > b\<close>: false whenever an operand is NaN.\<close>

fun num_gt :: "number \<Rightarrow> number \<Rightarrow> bool" where
  "num_gt NaN b = False"
| "num_gt a NaN = False"
| "num_gt (Finite x) (Finite y) = (y < x)"
| "num_gt a Infinity = False"
| "num_gt NegInfinity b = False"
| "num_gt Infinity b = True"
| "num_gt (Finite x) NegInfinity = True"

text \<open>\<open>Math.min(a, b)\<close>: NaN whenever an operand is NaN.\<close>

fun Math_min :: "number \<Rightarrow> number \<Rightarrow> number" where
  "Math_min NaN b = NaN"
| "Math_min a NaN = NaN"
| "Math_min NegInfinity b = NegInfinity"
| "Math_min a NegInfinity = NegInfinity"
| "Math_min Infinity b = b"
| "Math_min a Infinity = a"
| "Math_min (Finite x) (Finite y) = Finite (min x y)"

text \<open>A percentage that a progress bar can show: a finite number between 0 and 100.\<close>

fun in_0_100 :: "number \<Rightarrow> bool" where
  "in_0_100 (Finite x) = (0 \<le> x \<and> x \<le> 100)"
| "in_0_100 Infinity = False"
| "in_0_100 NegInfinity = False"
| "in_0_100 NaN = False"


section \<open>Progress and savings rate\<close>

text \<open>
  \<open>calculateProgress\<close> of the loans view:
  \<^verbatim>\<open>const paid = principal - current; return (paid / principal) * 100;\<close>
\<close>

definition Loans_calculateProgress :: "number \<Rightarrow> number \<Rightarrow> number" where
  "Loans_calculateProgress current principal' =
     (let paid = num_sub principal' current
      in num_mul (num_div paid principal') (Finite 100))"

text \<open>
  \<open>calculateProgress\<close> of the goals view:
  \<^verbatim>\<open>return Math.min((current / target) * 100, 100);\<close>
\<close>

definition Goals_calculateProgress :: "number \<Rightarrow> number \<Rightarrow> number" where
  "Goals_calculateProgress current target =
     Math_min (num_mul (num_div current target) (Finite 100)) (Finite 100)"

text \<open>
  \<open>savingsRate\<close> of the dashboard:
  \<^verbatim>\<open>data.monthlyIncome > 0
    ? ((data.monthlyIncome - data.monthlyExpenses) / data.monthlyIncome) * 100 : 0\<close>
\<close>

definition savingsRate :: "number \<Rightarrow> number \<Rightarrow> number" where
  "savingsRate monthlyIncome monthlyExpenses =
     (if num_gt monthlyIncome (Finite 0)
      then num_mul (num_div (num_sub monthlyIncome monthlyExpenses) monthlyIncome) (Finite 100)
      else Finite 0)"


section \<open>Record store\<close>

text \<open>
  The record store is the external service behind the \<open>supabase\<close> client. Each table is
  a list of rows with their owner; a read either answers from the table or fails. A failed
  read shows in one of the two ways the client has: the promise resolves with
  \<open>{data: null, error}\<close>, or the promise rejects.
\<close>

record 'a owned =
  user_id :: string
  row :: 'a

datatype outage = Errors string | Throws string

datatype 'a response = Rejected string | Resolved "'a option" "string option"

text \<open>
  A calendar date, by the fields that the getters of a JavaScript \<open>Date\<close> report
  (\<open>getMonth\<close> counts from 0). The model has one calendar: the shift between the UTC
  reading of a stored date and the local reading of the getters is left out.
\<close>

record date =
  getFullYear :: int
  getMonth :: int
  getDate :: int

text \<open>The rows of the tables, with the fields that the views read.\<close>

record account =
  account_name :: string
  balance :: rat
  created_at :: int

record transaction =
  category :: string
  amount :: rat
  transaction_type :: string
  transaction_date :: date

record loan =
  principal_amount :: rat
  current_balance :: rat

record goal =
  target_amount :: rat
  current_amount :: rat

text \<open>
  A JavaScript string is a sequence of UTF-16 code units, each a number below 65536;
  \<open>js\<close> gives the string of a literal of ASCII characters.
\<close>

type_synonym js_string = "nat list"

definition js :: "string \<Rightarrow> js_string" where
  "js s = map of_char s"

record message =
  message_text :: js_string
  sender :: string

text \<open>
  The tables keep their rows in the order of creation, and \<open>outage\<close> says, for the name
  of a table, whether and how its requests fail.
\<close>

record supabase =
  accounts :: "account owned list"
  transactions :: "transaction owned list"
  loans :: "loan owned list"
  goals :: "goal owned list"
  chat_conversations :: "message owned list"
  outage :: "string \<Rightarrow> outage option"

definition respond :: "supabase \<Rightarrow> string \<Rightarrow> 'a \<Rightarrow> 'a response" where
  "respond db table result =
     (case outage db table of
        None \<Rightarrow> Resolved (Some result) None
      | Some (Errors e) \<Rightarrow> Resolved None (Some e)
      | Some (Throws e) \<Rightarrow> Rejected e)"

text \<open>\<open>.eq('user_id', uid)\<close>\<close>

definition eq_user_id :: "string \<Rightarrow> 'a owned list \<Rightarrow> 'a list" where
  "eq_user_id uid table = map row (filter (\<lambda>r. user_id r = uid) table)"

text \<open>
  \<open>.order('transaction_date', {ascending: false})\<close>: later dates first. The store does not
  say how it orders rows of one date; the model keeps them in table order.
\<close>

definition order_transaction_date_desc :: "transaction list \<Rightarrow> transaction list" where
  "order_transaction_date_desc rows =
     sort_key (\<lambda>t. (- getFullYear (transaction_date t),
                      - getMonth (transaction_date t),
                      - getDate (transaction_date t))) rows"

text \<open>\<open>.order('created_at', {ascending: false})\<close>\<close>

definition order_created_at_desc :: "account list \<Rightarrow> account list" where
  "order_created_at_desc rows = sort_key (\<lambda>a. - created_at a) rows"

fun rejection :: "'a response \<Rightarrow> string option" where
  "rejection (Rejected e) = Some e"
| "rejection (Resolved d e) = None"

text \<open>The \<open>data\<close> field of a response; \<open>data || []\<close> is \<open>rows_or_empty\<close>.\<close>

fun response_data :: "'a response \<Rightarrow> 'a option" where
  "response_data (Rejected e) = None"
| "response_data (Resolved d e) = d"

fun rows_or_empty :: "'a list option \<Rightarrow> 'a list" where
  "rows_or_empty None = []"
| "rows_or_empty (Some rows) = rows"

text \<open>
  \<open>Promise.all\<close> rejects when one of its promises rejects; the model reports the first
  rejection in the order of the array.
\<close>

fun first_rejection :: "string option list \<Rightarrow> string option" where
  "first_rejection [] = None"
| "first_rejection (None # rs) = first_rejection rs"
| "first_rejection (Some e # rs) = Some e"


section \<open>Views\<close>

text \<open>
  A view holds what it fetched and its \<open>loading\<close> flag. \<open>console\<close> collects the
  labels passed to \<open>console.error\<close>.
\<close>

record 'd view =
  data :: 'd
  loading :: bool
  console :: "string list"

record User =
  id' :: string
  name :: string


section \<open>Dashboard\<close>

record category_total =
  category_name :: string
  total :: rat

record month_entry =
  month_short :: string
  monthNum :: int
  year :: int

record series_entry =
  month :: string
  income :: rat
  expenses :: rat

record DashboardData =
  d_totalBalance :: rat
  d_monthlyIncome :: rat
  d_monthlyExpenses :: rat
  d_totalLoans :: rat
  d_activeGoals :: nat
  d_recentTransactions :: "transaction list"
  d_expensesByCategory :: "category_total list"
  d_incomeVsExpenses :: "series_entry list"

text \<open>The initial state of the dashboard: \<open>useState\<close> of \<open>data\<close> and of \<open>loading\<close>.\<close>

definition Dashboard_initial :: "DashboardData view" where
  "Dashboard_initial =
     \<lparr>data = \<lparr>d_totalBalance = 0, d_monthlyIncome = 0, d_monthlyExpenses = 0,
              d_totalLoans = 0, d_activeGoals = 0, d_recentTransactions = [],
              d_expensesByCategory = [], d_incomeVsExpenses = []\<rparr>,
      loading = True, console = []\<rparr>"

text \<open>
  \<^verbatim>\<open>transactionsRes.data?.filter((t) => { const tDate = new Date(t.transaction_date);
    return tDate.getMonth() === currentMonth && tDate.getFullYear() === currentYear; }) || []\<close>
\<close>

definition currentMonthTransactions :: "transaction list \<Rightarrow> date \<Rightarrow> transaction list" where
  "currentMonthTransactions rows now =
     (let currentMonth = getMonth now; currentYear = getFullYear now
      in filter (\<lambda>t. let tDate = transaction_date t
                     in getMonth tDate = currentMonth \<and> getFullYear tDate = currentYear) rows)"

text \<open>
  \<^verbatim>\<open>.filter((t) => t.transaction_type === 'income')
   .reduce((sum, t) => sum + Number(t.amount), 0)\<close>
\<close>

definition monthlyIncome :: "transaction list \<Rightarrow> rat" where
  "monthlyIncome ts =
     foldl (\<lambda>sum t. sum + amount t) 0 (filter (\<lambda>t. transaction_type t = ''income'') ts)"

definition monthlyExpenses :: "transaction list \<Rightarrow> rat" where
  "monthlyExpenses ts =
     foldl (\<lambda>sum t. sum + amount t) 0 (filter (\<lambda>t. transaction_type t = ''expense'') ts)"

text \<open>
  The category totals are accumulated with the addition of JavaScript numbers, which
  rounds its result to a double. An amount is the exact value of the finite double
  \<open>Number(t.amount)\<close>, and the rounding addition is the parameter \<open>fadd\<close> of the model
  (with \<open>(+)\<close> for it, sums are exact). The order of doubles is the order of their values,
  and \<open>b.total - a.total\<close> is negative, zero or positive as \<open>b.total\<close> is less than, equal
  to or greater than \<open>a.total\<close>.

  The step of the \<open>reduce\<close> that builds the category totals: \<open>acc.find\<close> yields the first
  entry of the category, whose total is updated in place by
  \<^verbatim>\<open>existing.total += Number(t.amount)\<close>; without one, a new entry is pushed at the end.
\<close>

fun add_expense ::
  "(rat \<Rightarrow> rat \<Rightarrow> rat) \<Rightarrow> category_total list \<Rightarrow> transaction \<Rightarrow> category_total list" where
  "add_expense fadd [] t = [\<lparr>category_name = category t, total = amount t\<rparr>]"
| "add_expense fadd (c # acc) t =
     (if category_name c = category t then c\<lparr>total := fadd (total c) (amount t)\<rparr> # acc
      else c # add_expense fadd acc t)"

definition groupExpenses :: "(rat \<Rightarrow> rat \<Rightarrow> rat) \<Rightarrow> transaction list \<Rightarrow> category_total list" where
  "groupExpenses fadd ts =
     foldl (add_expense fadd) [] (filter (\<lambda>t. transaction_type t = ''expense'') ts)"

text \<open>
  \<^verbatim>\<open>.sort((a, b) => b.total - a.total).slice(0, 5)\<close>: \<open>Array.prototype.sort\<close> is stable,
  as is \<open>sort_key\<close>.
\<close>

definition rankedExpenses :: "(rat \<Rightarrow> rat \<Rightarrow> rat) \<Rightarrow> transaction list \<Rightarrow> category_total list" where
  "rankedExpenses fadd ts = sort_key (\<lambda>c. - total c) (groupExpenses fadd ts)"

definition expensesByCategory :: "(rat \<Rightarrow> rat \<Rightarrow> rat) \<Rightarrow> transaction list \<Rightarrow> category_total list" where
  "expensesByCategory fadd ts = take 5 (rankedExpenses fadd ts)"

text \<open>
  \<open>new Date(year, monthIndex, 1)\<close>: a year from 0 to 99 stands for 1900 + year, and a
  month index outside 0..11 carries into the year.
\<close>

definition new_Date_first :: "int \<Rightarrow> int \<Rightarrow> date" where
  "new_Date_first y monthIndex =
     (let yr = (if 0 \<le> y \<and> y \<le> 99 then 1900 + y else y)
      in \<lparr>getFullYear = yr + monthIndex div 12, getMonth = monthIndex mod 12, getDate = 1\<rparr>)"

text \<open>\<open>d.toLocaleDateString('en-US', {month: 'short'})\<close>\<close>

definition toLocaleDateString_month_short :: "date \<Rightarrow> string" where
  "toLocaleDateString_month_short d =
     [''Jan'', ''Feb'', ''Mar'', ''Apr'', ''May'', ''Jun'',
      ''Jul'', ''Aug'', ''Sep'', ''Oct'', ''Nov'', ''Dec''] ! nat (getMonth d mod 12)"

text \<open>
  \<^verbatim>\<open>Array.from({ length: 6 }, (_, i) => {
    const d = new Date(currentYear, currentMonth - (5 - i), 1);
    return { month: ..., monthNum: d.getMonth(), year: d.getFullYear() }; })\<close>
\<close>

definition last6Months :: "date \<Rightarrow> month_entry list" where
  "last6Months now =
     (let currentMonth = getMonth now; currentYear = getFullYear now
      in map (\<lambda>i. let d = new_Date_first currentYear (currentMonth - (5 - int i))
                  in \<lparr>month_short = toLocaleDateString_month_short d,
                      monthNum = getMonth d, year = getFullYear d\<rparr>) [0..<6])"

definition monthTransactions :: "transaction list \<Rightarrow> month_entry \<Rightarrow> transaction list" where
  "monthTransactions rows m =
     filter (\<lambda>t. let tDate = transaction_date t
                in getMonth tDate = monthNum m \<and> getFullYear tDate = year m) rows"

definition incomeVsExpenses :: "transaction list \<Rightarrow> date \<Rightarrow> series_entry list" where
  "incomeVsExpenses rows now =
     map (\<lambda>m. \<lparr>month = month_short m,
               income = monthlyIncome (monthTransactions rows m),
               expenses = monthlyExpenses (monthTransactions rows m)\<rparr>) (last6Months now)"

text \<open>
  The five reads of \<open>loadDashboardData\<close>. The transactions read is
  \<^verbatim>\<open>.eq('user_id', user.id).order('transaction_date', { ascending: false }).limit(10)\<close>.
  The profile read is awaited with the others and its data is not used.
\<close>

definition Dashboard_accountsRes :: "supabase \<Rightarrow> string \<Rightarrow> account list response" where
  "Dashboard_accountsRes db uid = respond db ''accounts'' (eq_user_id uid (accounts db))"

definition Dashboard_transactionsRes :: "supabase \<Rightarrow> string \<Rightarrow> transaction list response" where
  "Dashboard_transactionsRes db uid =
     respond db ''transactions''
       (take 10 (order_transaction_date_desc (eq_user_id uid (transactions db))))"

definition Dashboard_loansRes :: "supabase \<Rightarrow> string \<Rightarrow> loan list response" where
  "Dashboard_loansRes db uid = respond db ''loans'' (eq_user_id uid (loans db))"

definition Dashboard_goalsRes :: "supabase \<Rightarrow> string \<Rightarrow> goal list response" where
  "Dashboard_goalsRes db uid = respond db ''goals'' (eq_user_id uid (goals db))"

definition Dashboard_profileRes :: "supabase \<Rightarrow> string \<Rightarrow> unit response" where
  "Dashboard_profileRes db uid = respond db ''user_profiles'' ()"

text \<open>
  The body of the \<open>try\<close> block: \<open>Inl\<close> is the exception that leaves it. The sums of
  the loader are taken exactly.
\<close>

definition loadDashboardData_try ::
  "User \<Rightarrow> supabase \<Rightarrow> date \<Rightarrow> DashboardData view \<Rightarrow> string + DashboardData view" where
  "loadDashboardData_try user db now v =
     (let accountsRes = Dashboard_accountsRes db (id' user);
          transactionsRes = Dashboard_transactionsRes db (id' user);
          loansRes = Dashboard_loansRes db (id' user);
          goalsRes = Dashboard_goalsRes db (id' user);
          profileRes = Dashboard_profileRes db (id' user)
      in case first_rejection [rejection accountsRes, rejection transactionsRes,
                               rejection loansRes, rejection goalsRes, rejection profileRes] of
           Some e \<Rightarrow> Inl e
         | None \<Rightarrow>
            (let totalBalance =
                   foldl (\<lambda>sum acc. sum + balance acc) 0 (rows_or_empty (response_data accountsRes));
                 totalLoans =
                   foldl (\<lambda>sum l. sum + current_balance l) 0 (rows_or_empty (response_data loansRes));
                 activeGoals = length (rows_or_empty (response_data goalsRes));
                 rows = rows_or_empty (response_data transactionsRes);
                 thisMonth = currentMonthTransactions rows now
             in Inr (v\<lparr>data :=
                        \<lparr>d_totalBalance = totalBalance,
                         d_monthlyIncome = monthlyIncome thisMonth,
                         d_monthlyExpenses = monthlyExpenses thisMonth,
                         d_totalLoans = totalLoans,
                         d_activeGoals = activeGoals,
                         d_recentTransactions = rows,
                         d_expensesByCategory = expensesByCategory (+) thisMonth,
                         d_incomeVsExpenses = incomeVsExpenses rows now\<rparr>\<rparr>)))"

text \<open>
  \<^verbatim>\<open>if (!user) return;
  try { ... } catch (error) { console.error('Error loading dashboard:', error); }
  finally { setLoading(false); }\<close>
\<close>

definition loadDashboardData ::
  "User option \<Rightarrow> supabase \<Rightarrow> date \<Rightarrow> DashboardData view \<Rightarrow> DashboardData view" where
  "loadDashboardData user db now v =
     (case user of
        None \<Rightarrow> v
      | Some u \<Rightarrow>
          (let v' = (case loadDashboardData_try u db now v of
                       Inl error \<Rightarrow> v\<lparr>console := console v @ [''Error loading dashboard:'']\<rparr>
                     | Inr loaded \<Rightarrow> loaded)
           in v'\<lparr>loading := False\<rparr>))"

text \<open>
  What the dashboard's monthly totals stand for: the sum of the amounts of all the rows of
  the user in the transactions table that are dated in the month of \<open>now\<close> and have the
  given type.
\<close>

definition month_total_of_table :: "supabase \<Rightarrow> string \<Rightarrow> date \<Rightarrow> string \<Rightarrow> rat" where
  "month_total_of_table db uid now type =
     sum_list (map amount
       (filter (\<lambda>t. getMonth (transaction_date t) = getMonth now
                     \<and> getFullYear (transaction_date t) = getFullYear now
                     \<and> transaction_type t = type)
          (eq_user_id uid (transactions db))))"


section \<open>Accounts\<close>

definition Accounts_initial :: "account list view" where
  "Accounts_initial = \<lparr>data = [], loading = True, console = []\<rparr>"

text \<open>
  The body of the \<open>try\<close> block of \<open>loadAccounts\<close>:
  \<^verbatim>\<open>const { data, error } = await supabase.from('accounts').select('*')
    .eq('user_id', user.id).order('created_at', { ascending: false });
  if (error) throw error;
  setAccounts(data || []);\<close>
\<close>

definition loadAccounts_try :: "User \<Rightarrow> supabase \<Rightarrow> account list view \<Rightarrow> string + account list view" where
  "loadAccounts_try user db v =
     (case respond db ''accounts'' (order_created_at_desc (eq_user_id (id' user) (accounts db))) of
        Rejected e \<Rightarrow> Inl e
      | Resolved d error \<Rightarrow>
          (case error of
             Some e \<Rightarrow> Inl e
           | None \<Rightarrow> Inr (v\<lparr>data := rows_or_empty d\<rparr>)))"

text \<open>
  \<^verbatim>\<open>if (!user) return;
  try { ... } catch (error) { console.error('Error loading accounts:', error); }
  finally { setLoading(false); }\<close>
\<close>

definition loadAccounts :: "User option \<Rightarrow> supabase \<Rightarrow> account list view \<Rightarrow> account list view" where
  "loadAccounts user db v =
     (case user of
        None \<Rightarrow> v
      | Some u \<Rightarrow>
          (let v' = (case loadAccounts_try u db v of
                       Inl error \<Rightarrow> v\<lparr>console := console v @ [''Error loading accounts:'']\<rparr>
                     | Inr loaded \<Rightarrow> loaded)
           in v'\<lparr>loading := False\<rparr>))"


section \<open>Advisor\<close>

text \<open>\<open>includes\<close> is the search for a contiguous occurrence.\<close>

fun str_includes :: "'a list \<Rightarrow> 'a list \<Rightarrow> bool" where
  "str_includes [] k = (k = [])"
| "str_includes (c # s) k = (take (length k) (c # s) = k \<or> str_includes s k)"

text \<open>The replies of \<open>generateAIResponse\<close>, as written in the source.\<close>

definition budget_reply :: string where
  "budget_reply =
     ''Great question about budgeting! A popular method is the 50/30/20 rule: allocate 50% of your income to needs, 30% to wants, and 20% to savings and debt repayment. Track your expenses regularly and adjust as needed. Would you like help setting up a budget plan?''"

definition save_reply :: string where
  "save_reply =
     ''Excellent focus on savings! Start by building an emergency fund covering 3-6 months of expenses. Then consider high-yield savings accounts or automated transfers. Even small amounts add up over time. What's your current savings goal?''"

definition debt_reply :: string where
  "debt_reply =
     ''Managing debt is crucial for financial health. Consider the avalanche method (paying off highest interest first) or snowball method (smallest balance first). Make minimum payments on all debts while focusing extra payments on one. Would you like help creating a debt payoff plan?''"

definition invest_reply :: string where
  "invest_reply =
     ''Investing is key to building wealth! Start with understanding your risk tolerance and time horizon. Consider diversified index funds for beginners. Remember: invest for the long term, don't try to time the market, and never invest money you can't afford to lose. Have you started investing yet?''"

definition credit_score_reply :: string where
  "credit_score_reply =
     ''Your credit score impacts loan rates and approval. Key factors: payment history (35%), credit utilization (30%), length of credit history (15%), new credit (10%), and credit mix (10%). Pay bills on time, keep utilization below 30%, and avoid opening too many accounts at once.''"

definition retire_reply :: string where
  "retire_reply =
     ''Retirement planning is essential! Start early to benefit from compound interest. Contribute to employer 401(k) matches first, then consider IRAs. Aim to save 15-20% of income. Use the rule of 72 to estimate investment doubling time. When do you plan to retire?''"

definition emergency_fund_reply :: string where
  "emergency_fund_reply =
     ''An emergency fund is your financial safety net! Aim for 3-6 months of expenses in a high-yield savings account. Start small if needed - even $1000 can help. Keep it liquid and separate from daily spending accounts. This protects you from unexpected expenses without going into debt.''"

definition greeting_reply :: string where
  "greeting_reply =
     ''Hello! I'm your AI Financial Advisor. I'm here to help you with budgeting, saving, investing, debt management, and achieving your financial goals. What would you like to discuss today?''"

definition thanks_reply :: string where
  "thanks_reply =
     ''You're welcome! I'm here anytime you need financial guidance. Remember, small steps lead to big progress. Keep up the great work on your financial journey!''"

definition fallback_reply :: string where
  "fallback_reply =
     ''That's an interesting question! For personalized financial advice, consider: What are your current financial goals? What's your income vs expenses? Do you have emergency savings? Understanding your full picture helps create the best strategy. What specific financial goal can I help you with?''"

text \<open>
  \<open>String.prototype.toLowerCase\<close> applies the case mapping of the Unicode standard, whose
  tables are not part of the repository: the mapping is the parameter \<open>toLowerCase\<close> of
  the model.
\<close>

definition generateAIResponse :: "(js_string \<Rightarrow> js_string) \<Rightarrow> js_string \<Rightarrow> js_string" where
  "generateAIResponse toLowerCase userMessage =
     (let lowerMessage = toLowerCase userMessage
      in if str_includes lowerMessage (js ''budget'') \<or> str_includes lowerMessage (js ''spend'')
           then js budget_reply
         else if str_includes lowerMessage (js ''save'')
                 \<or> str_includes lowerMessage (js ''saving'')
           then js save_reply
         else if str_includes lowerMessage (js ''debt'') \<or> str_includes lowerMessage (js ''loan'')
           then js debt_reply
         else if str_includes lowerMessage (js ''invest'')
                 \<or> str_includes lowerMessage (js ''stock'')
           then js invest_reply
         else if str_includes lowerMessage (js ''credit score'')
           then js credit_score_reply
         else if str_includes lowerMessage (js ''retire'')
                 \<or> str_includes lowerMessage (js ''retirement'')
           then js retire_reply
         else if str_includes lowerMessage (js ''emergency fund'')
           then js emergency_fund_reply
         else if str_includes lowerMessage (js ''hello'') \<or> str_includes lowerMessage (js ''hi'')
                 \<or> str_includes lowerMessage (js ''hey'')
           then js greeting_reply
         else if str_includes lowerMessage (js ''thank'')
           then js thanks_reply
         else js fallback_reply)"

text \<open>
  The responder as an ordered table of rules: each rule has its keywords and its reply, the
  first rule with a keyword that occurs in the text gives the reply, and the fallback
  answers when no rule matches.
\<close>

definition advisor_rules :: "(js_string list \<times> js_string) list" where
  "advisor_rules =
     [([js ''budget'', js ''spend''], js budget_reply),
      ([js ''save'', js ''saving''], js save_reply),
      ([js ''debt'', js ''loan''], js debt_reply),
      ([js ''invest'', js ''stock''], js invest_reply),
      ([js ''credit score''], js credit_score_reply),
      ([js ''retire'', js ''retirement''], js retire_reply),
      ([js ''emergency fund''], js emergency_fund_reply),
      ([js ''hello'', js ''hi'', js ''hey''], js greeting_reply),
      ([js ''thank''], js thanks_reply)]"

fun first_match :: "(js_string list \<times> js_string) list \<Rightarrow> js_string \<Rightarrow> js_string" where
  "first_match [] msg = js fallback_reply"
| "first_match ((keywords, reply) # rules) msg =
     (if list_ex (str_includes msg) keywords then reply else first_match rules msg)"

text \<open>The case mapping on strings of ASCII characters: the letters A to Z.\<close>

definition toLowerCase_ascii :: "js_string \<Rightarrow> js_string" where
  "toLowerCase_ascii s = map (\<lambda>c. if 65 \<le> c \<and> c \<le> 90 then c + 32 else c) s"


section \<open>Chat\<close>

record chat =
  messages :: "message list"
  input :: js_string

text \<open>
  \<open>trim\<close> drops the white space and the line terminators at both ends: the code points
  U+0009 to U+000D, U+0020, U+00A0, U+1680, U+2000 to U+200A, U+2028, U+2029, U+202F,
  U+205F, U+3000 and U+FEFF.
\<close>

definition isWhiteSpace :: "nat \<Rightarrow> bool" where
  "isWhiteSpace c =
     (c \<in> set [9, 10, 11, 12, 13, 32, 160, 5760,
               8192, 8193, 8194, 8195, 8196, 8197, 8198, 8199, 8200, 8201, 8202,
               8232, 8233, 8239, 8287, 12288, 65279])"

definition trim :: "js_string \<Rightarrow> js_string" where
  "trim s = rev (dropWhile isWhiteSpace (rev (dropWhile isWhiteSpace s)))"

text \<open>
  \<open>loadMessages\<close> reads the conversation of the user in the order of creation, which is
  the order of the table. It logs a failed read and has no \<open>finally\<close> block.
\<close>

definition loadMessages :: "User option \<Rightarrow> supabase \<Rightarrow> chat view \<Rightarrow> chat view" where
  "loadMessages user db v =
     (case user of
        None \<Rightarrow> v
      | Some u \<Rightarrow>
          (case respond db ''chat_conversations'' (eq_user_id (id' u) (chat_conversations db)) of
             Rejected e \<Rightarrow> v\<lparr>console := console v @ [''Error loading messages:'']\<rparr>
           | Resolved d error \<Rightarrow>
               (case error of
                  Some e \<Rightarrow> v\<lparr>console := console v @ [''Error loading messages:'']\<rparr>
                | None \<Rightarrow> v\<lparr>data := (data v)\<lparr>messages := rows_or_empty d\<rparr>\<rparr>)))"

text \<open>
  An insert into \<open>chat_conversations\<close>: the error of a failed insert (by either form of
  failure, both of which end in the \<open>catch\<close> block of the caller) and the store after it.
\<close>

definition insert_message :: "supabase \<Rightarrow> message owned \<Rightarrow> string option \<times> supabase" where
  "insert_message db r =
     (case outage db ''chat_conversations'' of
        None \<Rightarrow> (None, db\<lparr>chat_conversations := chat_conversations db @ [r]\<rparr>)
      | Some (Errors e) \<Rightarrow> (Some e, db)
      | Some (Throws e) \<Rightarrow> (Some e, db))"

text \<open>
  \<^verbatim>\<open>if (!input.trim() || !user) return;
  const userMessage = input.trim(); setInput(''); setLoading(true);
  try { insert the user's message; const aiResponse = await generateAIResponse(userMessage);
        insert the reply; await loadMessages(); }
  catch (error) { console.error('Error sending message:', error); }
  finally { setLoading(false); }\<close>
\<close>

definition handleSend ::
  "(js_string \<Rightarrow> js_string) \<Rightarrow> User option \<Rightarrow> supabase \<times> chat view
     \<Rightarrow> supabase \<times> chat view" where
  "handleSend toLowerCase user s =
     (case user of
        None \<Rightarrow> s
      | Some u \<Rightarrow>
          (let db = fst s; v = snd s
           in if trim (input (data v)) = [] then s
              else
                (let userMessage = trim (input (data v));
                     v1 = v\<lparr>data := (data v)\<lparr>input := []\<rparr>, loading := True\<rparr>;
                     failed = v1\<lparr>console := console v1 @ [''Error sending message:''],
                                 loading := False\<rparr>;
                     sent = insert_message db
                              \<lparr>user_id = id' u,
                               row = \<lparr>message_text = userMessage, sender = ''user''\<rparr>\<rparr>
                 in case fst sent of
                      Some userError \<Rightarrow> (snd sent, failed)
                    | None \<Rightarrow>
                        (let aiResponse = generateAIResponse toLowerCase userMessage;
                             answered = insert_message (snd sent)
                                          \<lparr>user_id = id' u,
                                           row = \<lparr>message_text = aiResponse, sender = ''ai''\<rparr>\<rparr>
                         in case fst answered of
                              Some aiError \<Rightarrow> (snd answered, failed)
                            | None \<Rightarrow>
                                (snd answered,
                                 (loadMessages (Some u) (snd answered) v1)\<lparr>loading := False\<rparr>)))))"


section \<open>Authentication context\<close>

record auth =
  user :: "User option"
  loading' :: bool










section \<open>Reference definitions\<close>







text \<open>The months of the calendar, counted from the start of year 0.\<close>

definition month_index :: "int \<Rightarrow> int \<Rightarrow> int" where
  "month_index y m = y * 12 + m"

text \<open>The sum of the amounts of the rows of a type that are dated in a month.\<close>

definition month_sum :: "transaction list \<Rightarrow> string \<Rightarrow> month_entry \<Rightarrow> rat" where
  "month_sum rows type m =
     sum_list (map amount
       (filter (\<lambda>t. transaction_type t = type)
          (filter (\<lambda>t. getMonth (transaction_date t) = monthNum m
                        \<and> getFullYear (transaction_date t) = year m) rows)))"

text \<open>A read of the dashboard that rejects.\<close>

definition rejects :: "supabase \<Rightarrow> string \<Rightarrow> bool" where
  "rejects db table = (case outage db table of Some (Throws e) \<Rightarrow> True | _ \<Rightarrow> False)"


section \<open>Example data\<close>

definition example_now :: date where
  "example_now = \<lparr>getFullYear = 2024, getMonth = 2, getDate = 20\<rparr>"

definition ann :: User where
  "ann = \<lparr>id' = ''1'', name = ''Ann''\<rparr>"

definition salary :: "transaction owned" where
  "salary =
     \<lparr>user_id = ''1'',
      row = \<lparr>category = ''Salary'', amount = 100, transaction_type = ''income'',
             transaction_date = \<lparr>getFullYear = 2024, getMonth = 2, getDate = 15\<rparr>\<rparr>\<rparr>"

text \<open>A store in which user 1 has eleven income transactions of 100 in March 2024.\<close>

definition eleven_salaries :: supabase where
  "eleven_salaries =
     \<lparr>accounts = [], transactions = replicate 11 salary, loans = [], goals = [],
      chat_conversations = [], outage = (\<lambda>table. None)\<rparr>"

definition groceries :: transaction where
  "groceries =
     \<lparr>category = ''Groceries'', amount = 150, transaction_type = ''expense'',
      transaction_date = \<lparr>getFullYear = 2024, getMonth = 2, getDate = 3\<rparr>\<rparr>"





definition cheque :: account where
  "cheque = \<lparr>account_name = ''Cheque'', balance = 2500, created_at = 1\<rparr>"

text \<open>A store in which every request for the accounts table resolves with an error.\<close>

definition accounts_down :: supabase where
  "accounts_down =
     \<lparr>accounts = [\<lparr>user_id = ''1'', row = cheque\<rparr>], transactions = [], loans = [],
      goals = [], chat_conversations = [],
      outage = (\<lambda>table. if table = ''accounts'' then Some (Errors ''timeout'') else None)\<rparr>"

text \<open>A store whose requests for the transactions table reject.\<close>

definition transactions_reject :: supabase where
  "transactions_reject =
     \<lparr>accounts = [], transactions = [], loans = [], goals = [], chat_conversations = [],
      outage = (\<lambda>table. if table = ''transactions'' then Some (Throws ''offline'') else None)\<rparr>"

text \<open>A view of the accounts after a successful load.\<close>

definition accounts_shown :: "account list view" where
  "accounts_shown = \<lparr>data = [cheque], loading = False, console = []\<rparr>"

definition chat_typing :: "chat view" where
  "chat_typing =
     \<lparr>data = \<lparr>messages = [], input = [160, 32] @ js ''Thanks for THIS'' @ [10, 8232]\<rparr>, loading = False, console = []\<rparr>"


section \<open>Auxiliary lemmas\<close>

lemma foldl_sum: "foldl (\<lambda>sum t. sum + f t) a xs = a + sum_list (map f xs)"
  by (induction xs arbitrary: a) (simp_all add: add.assoc)

lemma monthlyIncome_sum:
  "monthlyIncome ts = sum_list (map amount (filter (\<lambda>t. transaction_type t = ''income'') ts))"
  by (simp add: monthlyIncome_def foldl_sum)

lemma monthlyExpenses_sum:
  "monthlyExpenses ts = sum_list (map amount (filter (\<lambda>t. transaction_type t = ''expense'') ts))"
  by (simp add: monthlyExpenses_def foldl_sum)

subsection \<open>Grouping by category\<close>














subsection \<open>The six months\<close>

lemma upt_6: "[0..<6] = [0, 1, 2, 3, 4, 5::nat]"
  by (simp add: upt_rec)

lemma length_last6Months: "length (last6Months now) = 6"
  by (simp add: last6Months_def Let_def)

lemma last6Months_index:
  "map (\<lambda>m. month_index (year m) (monthNum m)) (last6Months now) =
     map (\<lambda>i. month_index (if 0 \<le> getFullYear now \<and> getFullYear now \<le> 99
                            then 1900 + getFullYear now else getFullYear now)
                           (getMonth now) - 5 + int i) [0..<6]"
  by (simp add: last6Months_def Let_def new_Date_first_def month_index_def algebra_simps)

lemma monthNum_range:
  "m \<in> set (last6Months now) \<Longrightarrow> 0 \<le> monthNum m \<and> monthNum m < 12"
  by (auto simp: last6Months_def Let_def new_Date_first_def)

lemma incomeVsExpenses_month_sum:
  "incomeVsExpenses rows now =
     map (\<lambda>m. \<lparr>month = month_short m, income = month_sum rows ''income'' m,
               expenses = month_sum rows ''expense'' m\<rparr>) (last6Months now)"
  by (simp add: incomeVsExpenses_def monthlyIncome_sum monthlyExpenses_sum
      monthTransactions_def month_sum_def Let_def)

subsection \<open>Substrings\<close>

lemma str_includes_iff: "str_includes s k \<longleftrightarrow> (\<exists>p q. s = p @ k @ q)"
proof (induction s)
  case Nil
  then show ?case by auto
next
  case (Cons c s)
  have starts: "(take (length k) (c # s) = k) \<longleftrightarrow> (\<exists>q. c # s = k @ q)"
    by (metis append_eq_conv_conj)
  have "(\<exists>p q. c # s = p @ k @ q) \<longleftrightarrow> (\<exists>q. c # s = k @ q) \<or> (\<exists>p q. s = p @ k @ q)"
  proof
    assume "\<exists>p q. c # s = p @ k @ q"
    then obtain p q where pq: "c # s = p @ k @ q" by blast
    show "(\<exists>q. c # s = k @ q) \<or> (\<exists>p q. s = p @ k @ q)"
    proof (cases p)
      case Nil
      with pq show ?thesis by auto
    next
      case (Cons a p')
      with pq have "s = p' @ k @ q" by simp
      then show ?thesis by blast
    qed
  next
    assume "(\<exists>q. c # s = k @ q) \<or> (\<exists>p q. s = p @ k @ q)"
    then show "\<exists>p q. c # s = p @ k @ q"
    proof
      assume "\<exists>q. c # s = k @ q"
      then show ?thesis by (metis append_Nil)
    next
      assume "\<exists>p q. s = p @ k @ q"
      then obtain p q where "s = p @ k @ q" by blast
      then have "c # s = (c # p) @ k @ q" by simp
      then show ?thesis by blast
    qed
  qed
  with starts show ?case using Cons.IH by simp
qed


text \<open>The code units of the keywords.\<close>

lemmas js_keywords =
  js_def [of "''budget''"] js_def [of "''spend''"]
  js_def [of "''save''"] js_def [of "''saving''"] js_def [of "''debt''"]
  js_def [of "''loan''"] js_def [of "''invest''"] js_def [of "''stock''"]
  js_def [of "''credit score''"] js_def [of "''retire''"] js_def [of "''retirement''"]
  js_def [of "''emergency fund''"] js_def [of "''hello''"] js_def [of "''hi''"]
  js_def [of "''hey''"] js_def [of "''thank''"]

subsection \<open>Rejected reads\<close>

lemma first_rejection_None: "first_rejection rs = None \<longleftrightarrow> (\<forall>r \<in> set rs. r = None)"
  by (induction rs rule: first_rejection.induct) auto

lemma rejection_respond: "rejection (respond db table x) = None \<longleftrightarrow> \<not> rejects db table"
  by (simp add: respond_def rejects_def split: option.splits outage.splits)

lemma loadDashboardData_try_rejected:
  assumes "list_ex (rejects db) [''accounts'', ''transactions'', ''loans'', ''goals'', ''user_profiles'']"
  shows "\<exists>e. loadDashboardData_try u db now w = Inl e"
proof -
  let ?rs = "[rejection (Dashboard_accountsRes db (id' u)),
              rejection (Dashboard_transactionsRes db (id' u)),
              rejection (Dashboard_loansRes db (id' u)),
              rejection (Dashboard_goalsRes db (id' u)),
              rejection (Dashboard_profileRes db (id' u))]"
  have "first_rejection ?rs \<noteq> None"
    using assms unfolding first_rejection_None
    by (auto simp: Dashboard_accountsRes_def Dashboard_transactionsRes_def
        Dashboard_loansRes_def Dashboard_goalsRes_def Dashboard_profileRes_def
        rejection_respond)
  then obtain e where "first_rejection ?rs = Some e"
    by blast
  then have "loadDashboardData_try u db now w = Inl e"
    by (simp add: loadDashboardData_try_def Let_def)
  then show ?thesis
    by blast
qed

text \<open>
  When none of its reads rejects, the dashboard logs nothing: a read that resolves with an
  error is not reported.
\<close>

lemma loadDashboardData_resolved_not_logged:
  assumes "\<not> list_ex (rejects db) [''accounts'', ''transactions'', ''loans'', ''goals'', ''user_profiles'']"
  shows "console (loadDashboardData (Some u) db now w) = console w"
proof -
  let ?rs = "[rejection (Dashboard_accountsRes db (id' u)),
              rejection (Dashboard_transactionsRes db (id' u)),
              rejection (Dashboard_loansRes db (id' u)),
              rejection (Dashboard_goalsRes db (id' u)),
              rejection (Dashboard_profileRes db (id' u))]"
  have "first_rejection ?rs = None"
    using assms unfolding first_rejection_None
    by (auto simp: Dashboard_accountsRes_def Dashboard_transactionsRes_def
        Dashboard_loansRes_def Dashboard_goalsRes_def Dashboard_profileRes_def
        rejection_respond)
  then obtain d where "loadDashboardData_try u db now w = Inr (w\<lparr>data := d\<rparr>)"
    by (simp add: loadDashboardData_try_def Let_def)
  then show ?thesis
    by (simp add: loadDashboardData_def)
qed

subsection \<open>The limit of ten rows\<close>

text \<open>
  For a user with at most ten transactions, whose reads answer, the dashboard's monthly
  income is the sum over the user's income transactions of the month.
\<close>

lemma sum_list_mset_cong:
  fixes f :: "'a \<Rightarrow> rat"
  assumes "mset xs = mset ys"
  shows "sum_list (map f xs) = sum_list (map f ys)"
proof -
  from assms have "mset (map f xs) = mset (map f ys)"
    by simp
  then have "sum_mset (mset (map f xs)) = sum_mset (mset (map f ys))"
    by (rule arg_cong)
  then show ?thesis
    by (simp only: sum_mset_sum_list)
qed

lemma monthlyIncome_at_most_ten_rows:
  assumes up: "\<not> list_ex (rejects db) [''accounts'', ''transactions'', ''loans'', ''goals'', ''user_profiles'']"
    and answers: "outage db ''transactions'' = None"
    and few: "length (eq_user_id (id' u) (transactions db)) \<le> 10"
  shows "d_monthlyIncome (data (loadDashboardData (Some u) db now w))
           = month_total_of_table db (id' u) now ''income''"
proof -
  let ?rs = "[rejection (Dashboard_accountsRes db (id' u)),
              rejection (Dashboard_transactionsRes db (id' u)),
              rejection (Dashboard_loansRes db (id' u)),
              rejection (Dashboard_goalsRes db (id' u)),
              rejection (Dashboard_profileRes db (id' u))]"
  let ?xs = "eq_user_id (id' u) (transactions db)"
  have none: "first_rejection ?rs = None"
    using up unfolding first_rejection_None
    by (auto simp: Dashboard_accountsRes_def Dashboard_transactionsRes_def
        Dashboard_loansRes_def Dashboard_goalsRes_def Dashboard_profileRes_def
        rejection_respond)
  have rows: "rows_or_empty (response_data (Dashboard_transactionsRes db (id' u)))
                = order_transaction_date_desc ?xs"
    using answers few
    by (simp add: Dashboard_transactionsRes_def respond_def order_transaction_date_desc_def)
  have shown: "d_monthlyIncome (data (loadDashboardData (Some u) db now w))
                 = monthlyIncome (currentMonthTransactions (order_transaction_date_desc ?xs) now)"
    using none rows by (simp add: loadDashboardData_def loadDashboardData_try_def Let_def)
  have "mset (filter (\<lambda>t. transaction_type t = ''income'')
                (currentMonthTransactions (order_transaction_date_desc ?xs) now))
          = mset (filter (\<lambda>t. getMonth (transaction_date t) = getMonth now
                     \<and> getFullYear (transaction_date t) = getFullYear now
                     \<and> transaction_type t = ''income'') ?xs)"
    by (simp add: currentMonthTransactions_def order_transaction_date_desc_def Let_def
        conj_commute conj_left_commute)
  then have "monthlyIncome (currentMonthTransactions (order_transaction_date_desc ?xs) now)
               = month_total_of_table db (id' u) now ''income''"
    unfolding monthlyIncome_sum month_total_of_table_def by (rule sum_list_mset_cong)
  with shown show ?thesis by simp
qed

section \<open>Results\<close>

subsection \<open>Monthly income and expenses\<close>

text \<open>
  C1. The claim is that the dashboard's monthly income is the sum of the amounts of all the
  income transactions of the user that are dated in the month of \<open>now\<close>. The dashboard
  computes its totals from the transactions read, which are limited to the ten latest
  rows. For a user with eleven income transactions of 100 in the current month the
  dashboard shows 1000, and the sum over the user's transactions of the month is 1100.
\<close>

theorem monthlyIncome_of_ten_rows:
  "d_monthlyIncome (data (loadDashboardData (Some ann) eleven_salaries example_now
      Dashboard_initial)) = 1000
   \<and> length (d_recentTransactions (data (loadDashboardData (Some ann) eleven_salaries
        example_now Dashboard_initial))) = 10
   \<and> month_total_of_table eleven_salaries (id' ann) example_now ''income'' = 1100"
proof -
  have fetched: "loadDashboardData_try ann eleven_salaries example_now Dashboard_initial =
      Inr (Dashboard_initial\<lparr>data :=
             \<lparr>d_totalBalance = 0, d_monthlyIncome = 1000, d_monthlyExpenses = 0,
              d_totalLoans = 0, d_activeGoals = 0,
              d_recentTransactions = replicate 10 (row salary),
              d_expensesByCategory = [],
              d_incomeVsExpenses = incomeVsExpenses (replicate 10 (row salary)) example_now\<rparr>\<rparr>)"
    by (simp add: loadDashboardData_try_def Dashboard_accountsRes_def
        Dashboard_transactionsRes_def Dashboard_loansRes_def Dashboard_goalsRes_def
        Dashboard_profileRes_def respond_def eleven_salaries_def salary_def example_now_def
        ann_def eq_user_id_def order_transaction_date_desc_def currentMonthTransactions_def
        monthlyIncome_def monthlyExpenses_def expensesByCategory_def rankedExpenses_def
        groupExpenses_def Let_def numeral_eq_Suc)
  have total: "month_total_of_table eleven_salaries (id' ann) example_now ''income'' = 1100"
    by (simp add: month_total_of_table_def eleven_salaries_def salary_def example_now_def
        ann_def eq_user_id_def numeral_eq_Suc)
  show ?thesis
    using total by (simp add: loadDashboardData_def fetched)
qed

subsection \<open>Top categories\<close>



subsection \<open>Six-month series\<close>

text \<open>
  C3. For every list of transactions and every \<open>now\<close>, the series of income against
  expenses has exactly 6 entries, one for each entry of \<open>last6Months\<close>, with the sums of
  the income and of the expense transactions dated in that month; an entry whose month has
  no transaction has income 0 and expenses 0, and for the empty list all six entries are
  zero. For a \<open>now\<close> with a month from 0 to 11 and a year outside 0..99 (the years that the
  \<open>Date\<close> constructor reads as 1900 + year), the six months are the consecutive calendar
  months that end with the month of \<open>now\<close>, in chronological order.
\<close>

theorem incomeVsExpenses_six_months:
  "length (incomeVsExpenses rows now) = 6
   \<and> incomeVsExpenses rows now =
       map (\<lambda>m. \<lparr>month = month_short m, income = month_sum rows ''income'' m,
                 expenses = month_sum rows ''expense'' m\<rparr>) (last6Months now)
   \<and> (\<forall>i<6. monthTransactions rows (last6Months now ! i) = [] \<longrightarrow>
          income (incomeVsExpenses rows now ! i) = 0
          \<and> expenses (incomeVsExpenses rows now ! i) = 0)
   \<and> map (\<lambda>e. (income e, expenses e)) (incomeVsExpenses [] now)
       = [(0, 0), (0, 0), (0, 0), (0, 0), (0, 0), (0, 0)]
   \<and> (\<forall>m \<in> set (last6Months now). 0 \<le> monthNum m \<and> monthNum m < 12)
   \<and> (0 \<le> getMonth now \<and> getMonth now < 12
        \<and> (getFullYear now < 0 \<or> 99 < getFullYear now) \<longrightarrow>
          map (\<lambda>m. month_index (year m) (monthNum m)) (last6Months now)
            = map (\<lambda>i. month_index (getFullYear now) (getMonth now) - 5 + int i) [0..<6]
          \<and> monthNum (last (last6Months now)) = getMonth now
          \<and> year (last (last6Months now)) = getFullYear now)"
proof -
  have six: "length (incomeVsExpenses rows now) = 6"
    by (simp add: incomeVsExpenses_def length_last6Months)
  have zero: "\<forall>i<6. monthTransactions rows (last6Months now ! i) = [] \<longrightarrow>
          income (incomeVsExpenses rows now ! i) = 0
          \<and> expenses (incomeVsExpenses rows now ! i) = 0"
    by (simp add: incomeVsExpenses_def length_last6Months monthlyIncome_def
        monthlyExpenses_def)
  have empty: "map (\<lambda>e. (income e, expenses e)) (incomeVsExpenses [] now)
       = [(0, 0), (0, 0), (0, 0), (0, 0), (0, 0), (0, 0)]"
    by (simp add: incomeVsExpenses_def last6Months_def Let_def monthTransactions_def
        monthlyIncome_def monthlyExpenses_def upt_6)
  have range: "\<forall>m \<in> set (last6Months now). 0 \<le> monthNum m \<and> monthNum m < 12"
    using monthNum_range by blast
  have trailing: "map (\<lambda>m. month_index (year m) (monthNum m)) (last6Months now)
            = map (\<lambda>i. month_index (getFullYear now) (getMonth now) - 5 + int i) [0..<6]"
    if "getFullYear now < 0 \<or> 99 < getFullYear now"
    using that last6Months_index [of now] by auto
  have ending: "monthNum (last (last6Months now)) = getMonth now
          \<and> year (last (last6Months now)) = getFullYear now"
    if "0 \<le> getMonth now" "getMonth now < 12" "getFullYear now < 0 \<or> 99 < getFullYear now"
    using that by (auto simp: last6Months_def Let_def new_Date_first_def upt_6)
  show ?thesis
    using six incomeVsExpenses_month_sum [of rows now] zero empty range trailing ending
    by blast
qed

theorem incomeVsExpenses_six_months_witness:
  "incomeVsExpenses [groceries] example_now =
     [\<lparr>month = ''Oct'', income = 0, expenses = 0\<rparr>,
      \<lparr>month = ''Nov'', income = 0, expenses = 0\<rparr>,
      \<lparr>month = ''Dec'', income = 0, expenses = 0\<rparr>,
      \<lparr>month = ''Jan'', income = 0, expenses = 0\<rparr>,
      \<lparr>month = ''Feb'', income = 0, expenses = 0\<rparr>,
      \<lparr>month = ''Mar'', income = 0, expenses = 150\<rparr>]
   \<and> map (\<lambda>m. month_index (year m) (monthNum m)) (last6Months example_now)
       = [24285, 24286, 24287, 24288, 24289, 24290]
   \<and> monthNum (last (last6Months example_now)) = 2
   \<and> year (last (last6Months example_now)) = 2024"
  using incomeVsExpenses_six_months [of "[groceries]" example_now]
  by (simp add: example_now_def groceries_def month_index_def upt_6 month_sum_def
      last6Months_def new_Date_first_def toLocaleDateString_month_short_def Let_def)


subsection \<open>Unguarded divisions\<close>

text \<open>
  C4. The claim is that every division of the aggregation operations guards a zero
  denominator, so that no input gives Infinity or NaN. The two \<open>calculateProgress\<close>
  functions divide without a guard: a loan with principal 0 and balance 8000 has progress
  \<open>-Infinity\<close>, a loan with principal 0 and balance 0 has progress NaN, and a goal with
  target 0 and current amount 0 has progress NaN. Only the savings rate tests its
  denominator.
\<close>

theorem calculateProgress_zero_denominator:
  "Loans_calculateProgress (Finite 8000) (Finite 0) = NegInfinity
   \<and> Loans_calculateProgress (Finite 0) (Finite 0) = NaN
   \<and> Goals_calculateProgress (Finite 0) (Finite 0) = NaN
   \<and> \<not> isFinite (Loans_calculateProgress (Finite 0) (Finite 0))
   \<and> \<not> isFinite (Goals_calculateProgress (Finite 0) (Finite 0))"
  by (simp add: Loans_calculateProgress_def Goals_calculateProgress_def)

subsection \<open>Goal progress\<close>

text \<open>
  C5, as stated: for a goal with a nonzero target the displayed progress lies between 0 and
  100. It fails for a goal whose current amount is negative: current amount -50 against
  target 100 gives -50.
\<close>

theorem Goals_calculateProgress_below_zero:
  "(100::rat) \<noteq> 0
   \<and> Goals_calculateProgress (Finite (- 50)) (Finite 100) = Finite (- 50)
   \<and> \<not> in_0_100 (Goals_calculateProgress (Finite (- 50)) (Finite 100))"
  by (simp add: Goals_calculateProgress_def)

text \<open>
  C5, amended: for a goal with a nonzero target, progress is
  \<open>min (current / target * 100) 100\<close>: a finite number that is at most 100, and that lies
  between 0 and 100 exactly when \<open>current / target\<close> is not negative. Current 5000 of
  target 10000 is 50, and current 12000 of target 10000 is 100.
\<close>

theorem Goals_calculateProgress_clamped:
  assumes "target \<noteq> 0"
  shows "Goals_calculateProgress (Finite current) (Finite target)
           = Finite (min (current / target * 100) 100)
         \<and> min (current / target * 100) 100 \<le> 100
         \<and> (in_0_100 (Goals_calculateProgress (Finite current) (Finite target))
              \<longleftrightarrow> 0 \<le> current / target)
         \<and> Goals_calculateProgress (Finite 5000) (Finite 10000) = Finite 50
         \<and> Goals_calculateProgress (Finite 12000) (Finite 10000) = Finite 100"
proof -
  have formula: "Goals_calculateProgress (Finite current) (Finite target)
                 = Finite (min (current / target * 100) 100)"
    using assms by (simp add: Goals_calculateProgress_def)
  have "(0 \<le> current / target * 100) = (0 \<le> current / target)"
    using zero_le_mult_iff [of "current / target" 100] by auto
  then have range: "in_0_100 (Goals_calculateProgress (Finite current) (Finite target))
                      \<longleftrightarrow> 0 \<le> current / target"
    unfolding formula by simp
  have examples: "Goals_calculateProgress (Finite 5000) (Finite 10000) = Finite 50"
    "Goals_calculateProgress (Finite 12000) (Finite 10000) = Finite 100"
    by (simp_all add: Goals_calculateProgress_def)
  show ?thesis
    using formula range examples by simp
qed

theorem Goals_calculateProgress_clamped_witness:
  "(10000::rat) \<noteq> 0
   \<and> Goals_calculateProgress (Finite 5000) (Finite 10000) = Finite 50
   \<and> in_0_100 (Goals_calculateProgress (Finite 5000) (Finite 10000))"
  using Goals_calculateProgress_clamped [of 10000 5000] by simp

subsection \<open>Loan progress\<close>

text \<open>
  C6. For a loan with a nonzero principal, repayment progress is
  \<open>(p - b) / p * 100\<close> for principal \<open>p\<close> and current balance \<open>b\<close>, a finite number;
  principal 10000 with balance 8000 gives 20.
\<close>

theorem Loans_calculateProgress_formula:
  assumes "p \<noteq> 0"
  shows "Loans_calculateProgress (Finite b) (Finite p) = Finite ((p - b) / p * 100)
         \<and> Loans_calculateProgress (Finite 8000) (Finite 10000) = Finite 20"
  using assms by (simp add: Loans_calculateProgress_def)

theorem Loans_calculateProgress_formula_witness:
  "(10000::rat) \<noteq> 0 \<and> Loans_calculateProgress (Finite 8000) (Finite 10000) = Finite 20"
  using Loans_calculateProgress_formula [of 10000 8000] by simp

subsection \<open>Savings rate\<close>

text \<open>
  C7. For finite income and expenses, the savings rate is
  \<open>(i - e) / i * 100\<close> for income \<open>i\<close> and expenses \<open>e\<close> when income is positive, and 0
  otherwise. The
  result is always a finite number, and for income 0 it is 0 whatever the expenses are.
\<close>

theorem savingsRate_formula:
  "savingsRate (Finite i) (Finite e)
     = (if 0 < i then Finite ((i - e) / i * 100) else Finite 0)
   \<and> isFinite (savingsRate (Finite i) (Finite e))
   \<and> savingsRate (Finite 0) (Finite e) = Finite 0"
  by (simp add: savingsRate_def)

theorem savingsRate_formula_witness:
  "savingsRate (Finite 4000) (Finite 3000) = Finite 25
   \<and> savingsRate (Finite 0) (Finite 3000) = Finite 0"
  using savingsRate_formula [of 4000 3000] savingsRate_formula [of 0 3000] by simp

subsection \<open>Advisor\<close>

text \<open>
  C8. For every input string, and whatever the case mapping, the responder returns one
  reply: the reply of the first rule of the table, in the order budget or spend, save,
  debt or loan, invest, credit score, retire, emergency fund, greeting, thanks, that has a
  keyword occurring in the lower-case form of the input, and the fallback reply when no
  rule has one; so an input whose lower-case form contains \<open>budget\<close> gets the budget reply
  whatever else it contains. The reply is one of the ten fixed strings. The reply that
  \<open>handleSend\<close> stores is computed from the trimmed input alone: whatever the
  conversation stored so far and the messages shown, the rows that a successful send
  appends are the user's message and \<open>generateAIResponse\<close> of it.
\<close>

theorem generateAIResponse_first_match:
  "generateAIResponse toLowerCase userMessage
     = first_match advisor_rules (toLowerCase userMessage)
   \<and> generateAIResponse toLowerCase userMessage
       \<in> set (map snd advisor_rules) \<union> {js fallback_reply}
   \<and> (str_includes (toLowerCase userMessage) (js ''budget'') \<longrightarrow>
        generateAIResponse toLowerCase userMessage = js budget_reply)
   \<and> (outage db ''chat_conversations'' = None \<and> trim (input (data v)) \<noteq> [] \<longrightarrow>
        chat_conversations (fst (handleSend toLowerCase (Some u) (db, v))) =
          chat_conversations db @
            [\<lparr>user_id = id' u,
              row = \<lparr>message_text = trim (input (data v)), sender = ''user''\<rparr>\<rparr>,
             \<lparr>user_id = id' u,
              row = \<lparr>message_text = generateAIResponse toLowerCase (trim (input (data v))),
                     sender = ''ai''\<rparr>\<rparr>])"
proof -
  have table: "generateAIResponse toLowerCase userMessage
                 = first_match advisor_rules (toLowerCase userMessage)"
    by (simp add: generateAIResponse_def advisor_rules_def Let_def)
  have fixed: "generateAIResponse toLowerCase userMessage
                 \<in> set (map snd advisor_rules) \<union> {js fallback_reply}"
    by (simp add: generateAIResponse_def advisor_rules_def Let_def)
  have budget: "generateAIResponse toLowerCase userMessage = js budget_reply"
    if "str_includes (toLowerCase userMessage) (js ''budget'')"
    using that by (simp add: generateAIResponse_def Let_def)
  have sent: "chat_conversations (fst (handleSend toLowerCase (Some u) (db, v))) =
          chat_conversations db @
            [\<lparr>user_id = id' u,
              row = \<lparr>message_text = trim (input (data v)), sender = ''user''\<rparr>\<rparr>,
             \<lparr>user_id = id' u,
              row = \<lparr>message_text = generateAIResponse toLowerCase (trim (input (data v))),
                     sender = ''ai''\<rparr>\<rparr>]"
    if "outage db ''chat_conversations'' = None" "trim (input (data v)) \<noteq> []"
    using that by (simp add: handleSend_def insert_message_def Let_def)
  show ?thesis
    using table fixed budget sent by blast
qed

text \<open>
  With the case mapping of ASCII, a question about a BUDGET gets the budget reply; without
  lower-casing it would get the fallback. A message typed between a no-break space and a
  line separator is stored trimmed, and its reply is the greeting, since the lower-case
  form of THIS contains \<open>hi\<close>.
\<close>

theorem generateAIResponse_first_match_witness:
  "generateAIResponse toLowerCase_ascii (js ''How do I BUDGET?'') = js budget_reply
   \<and> generateAIResponse (\<lambda>s. s) (js ''How do I BUDGET?'') = js fallback_reply
   \<and> generateAIResponse toLowerCase_ascii (js ''I want to save and spend'') = js budget_reply
   \<and> outage eleven_salaries ''chat_conversations'' = None
   \<and> trim (input (data chat_typing)) = js ''Thanks for THIS''
   \<and> chat_conversations
         (fst (handleSend toLowerCase_ascii (Some ann) (eleven_salaries, chat_typing))) =
         [\<lparr>user_id = ''1'',
           row = \<lparr>message_text = js ''Thanks for THIS'', sender = ''user''\<rparr>\<rparr>,
          \<lparr>user_id = ''1'', row = \<lparr>message_text = js greeting_reply, sender = ''ai''\<rparr>\<rparr>]"
proof -
  have trimmed: "trim (input (data chat_typing)) = js ''Thanks for THIS''"
    by (simp add: chat_typing_def trim_def isWhiteSpace_def js_def)
  have up: "outage eleven_salaries ''chat_conversations'' = None"
    by (simp add: eleven_salaries_def)
  have lower: "str_includes (toLowerCase_ascii (js ''How do I BUDGET?'')) (js ''budget'')"
    by (simp add: toLowerCase_ascii_def js_def)
  have replies:
    "generateAIResponse (\<lambda>s. s) (js ''How do I BUDGET?'') = js fallback_reply"
    "generateAIResponse toLowerCase_ascii (js ''I want to save and spend'') = js budget_reply"
    "generateAIResponse toLowerCase_ascii (js ''Thanks for THIS'') = js greeting_reply"
    by (simp_all add: generateAIResponse_def toLowerCase_ascii_def Let_def js_keywords
        js_def [of "''How do I BUDGET?''"] js_def [of "''I want to save and spend''"]
        js_def [of "''Thanks for THIS''"])
  have nonempty: "trim (input (data chat_typing)) \<noteq> []"
    unfolding trimmed by (simp add: js_def)
  have empty: "chat_conversations eleven_salaries = []"
    by (simp add: eleven_salaries_def)
  note fact = generateAIResponse_first_match
      [where toLowerCase = toLowerCase_ascii and userMessage = "js ''How do I BUDGET?''"
         and db = eleven_salaries and v = chat_typing and u = ann]
  from fact lower have budget:
    "generateAIResponse toLowerCase_ascii (js ''How do I BUDGET?'') = js budget_reply"
    by blast
  from fact up nonempty have rows:
    "chat_conversations
       (fst (handleSend toLowerCase_ascii (Some ann) (eleven_salaries, chat_typing))) =
       chat_conversations eleven_salaries @
         [\<lparr>user_id = id' ann,
           row = \<lparr>message_text = trim (input (data chat_typing)), sender = ''user''\<rparr>\<rparr>,
          \<lparr>user_id = id' ann,
           row = \<lparr>message_text =
                    generateAIResponse toLowerCase_ascii (trim (input (data chat_typing))),
                  sender = ''ai''\<rparr>\<rparr>]"
    by blast
  show ?thesis
    using budget replies up trimmed rows empty by (simp add: ann_def)
qed

subsection \<open>Failed reads\<close>

text \<open>
  C9, as stated: after a failed read the view holds the empty collection. It fails for a
  view that already shows rows: when the accounts are loaded again and the read fails, the
  view keeps the rows it had.
\<close>

theorem loadAccounts_keeps_rows:
  "outage accounts_down ''accounts'' = Some (Errors ''timeout'')
   \<and> data (loadAccounts (Some ann) accounts_down accounts_shown) = [cheque]
   \<and> data (loadAccounts (Some ann) accounts_down accounts_shown) \<noteq> []"
  by (simp add: loadAccounts_def loadAccounts_try_def respond_def accounts_down_def
      accounts_shown_def)

text \<open>
  C9, amended: a failed read of the accounts (in either form of failure) and a rejected
  read of the dashboard do not leave the loader as an exception: the loader returns a view
  in which the error is logged, \<open>loading\<close> is false, and the data are those held before
  the read. On the first load these are the empty collection.
\<close>

theorem failed_read_logged:
  "(outage db ''accounts'' \<noteq> None \<longrightarrow>
      loadAccounts (Some u) db v
        = v\<lparr>console := console v @ [''Error loading accounts:''], loading := False\<rparr>
      \<and> data (loadAccounts (Some u) db Accounts_initial) = []
      \<and> \<not> loading (loadAccounts (Some u) db Accounts_initial))
   \<and> (list_ex (rejects db) [''accounts'', ''transactions'', ''loans'', ''goals'', ''user_profiles'']
        \<longrightarrow>
      loadDashboardData (Some u) db now w
        = w\<lparr>console := console w @ [''Error loading dashboard:''], loading := False\<rparr>
      \<and> data (loadDashboardData (Some u) db now Dashboard_initial) = data Dashboard_initial
      \<and> \<not> loading (loadDashboardData (Some u) db now Dashboard_initial))"
proof -
  have accounts_failed: "loadAccounts (Some u) db v
        = v\<lparr>console := console v @ [''Error loading accounts:''], loading := False\<rparr>"
    if "outage db ''accounts'' \<noteq> None" for v
  proof -
    from that obtain f where f: "outage db ''accounts'' = Some f" by blast
    show ?thesis
      by (cases f) (simp_all add: loadAccounts_def loadAccounts_try_def respond_def f)
  qed
  have first_rejected: "\<exists>e. loadDashboardData_try u db now w = Inl e"
    if "list_ex (rejects db) [''accounts'', ''transactions'', ''loans'', ''goals'', ''user_profiles'']"
    for w
    using that by (rule loadDashboardData_try_rejected)
  have dashboard_failed: "loadDashboardData (Some u) db now w
        = w\<lparr>console := console w @ [''Error loading dashboard:''], loading := False\<rparr>"
    if "list_ex (rejects db) [''accounts'', ''transactions'', ''loans'', ''goals'', ''user_profiles'']"
    for w
    using first_rejected [OF that, of w] by (auto simp: loadDashboardData_def)
  show ?thesis
    using accounts_failed dashboard_failed
    by (simp add: Accounts_initial_def Dashboard_initial_def)
qed

theorem failed_read_logged_witness:
  "outage accounts_down ''accounts'' \<noteq> None
   \<and> loadAccounts (Some ann) accounts_down Accounts_initial
       = \<lparr>data = [], loading = False, console = [''Error loading accounts:'']\<rparr>
   \<and> list_ex (rejects transactions_reject)
        [''accounts'', ''transactions'', ''loans'', ''goals'', ''user_profiles'']
   \<and> console (loadDashboardData (Some ann) transactions_reject example_now Dashboard_initial)
       = [''Error loading dashboard:'']
   \<and> \<not> loading (loadDashboardData (Some ann) transactions_reject example_now
          Dashboard_initial)"
proof -
  have down: "outage accounts_down ''accounts'' \<noteq> None"
    by (simp add: accounts_down_def)
  have rejected: "list_ex (rejects transactions_reject)
        [''accounts'', ''transactions'', ''loans'', ''goals'', ''user_profiles'']"
    by (simp add: rejects_def transactions_reject_def)
  have "loadAccounts (Some ann) accounts_down Accounts_initial
          = Accounts_initial\<lparr>console := console Accounts_initial @ [''Error loading accounts:''],
                              loading := False\<rparr>"
    using down
      failed_read_logged
        [where db = accounts_down and u = ann and v = Accounts_initial and now = example_now
           and w = Dashboard_initial]
    by blast
  moreover have "loadDashboardData (Some ann) transactions_reject example_now Dashboard_initial
          = Dashboard_initial\<lparr>console := console Dashboard_initial @ [''Error loading dashboard:''],
                               loading := False\<rparr>"
    using rejected
      failed_read_logged
        [where db = transactions_reject and u = ann and v = Accounts_initial
           and now = example_now and w = Dashboard_initial]
    by blast
  ultimately show ?thesis
    using down rejected by (simp add: Accounts_initial_def Dashboard_initial_def)
qed

subsection \<open>Authentication\<close>



end
